theory Spec2Isabelle
  imports Complex_Main
begin

section \<open>Values the provider receives\<close>

text \<open>
  The provider of \<^verbatim>\<open>_service_principal.py\<close> reads two JSON documents (the OpenID
  configuration and the token response). A decoded document is a Python value: \<open>None\<close>,
  a bool, an int, a float, a str, a list or a dict. A float is finite or one of the three
  special values. The clock and the expiry are real numbers, and a sum or a difference
  of them is exact here: the rounding of the float operations is not modelled. What is
  modelled is the conversion of an int to a float where the refresh adds the lifetime
  to the clock, with its rounding and its overflow.
  A dict is an association list, looked up by its first matching key.
\<close>

datatype pyfloat = Finite real | PosInf | NegInf | NaN

datatype json =
    JNull
  | JBool bool
  | JInt int
  | JFloat pyfloat
  | JStr string
  | JList "json list"
  | JObj "(string \<times> json) list"

text \<open>Python truthiness, as \<^verbatim>\<open>not x\<close> and \<^verbatim>\<open>if x\<close> test it.\<close>

fun truthy :: "json \<Rightarrow> bool" where
  "truthy JNull = False"
| "truthy (JBool b) = b"
| "truthy (JInt i) = (i \<noteq> 0)"
| "truthy (JFloat f) = (f \<noteq> Finite 0)"
| "truthy (JStr s) = (s \<noteq> [])"
| "truthy (JList xs) = (xs \<noteq> [])"
| "truthy (JObj kvs) = (kvs \<noteq> [])"

datatype error =
    ServicePrincipalConfigurationError string
  | ServicePrincipalAuthenticationError string
  | RequestException
  | AttributeError
  | TypeError
  | ValueError
  | OverflowError
  | AssertionError

subsection \<open>The built-in \<^verbatim>\<open>int()\<close>\<close>

text \<open>
  \<^verbatim>\<open>int(x)\<close> on a decoded value: a bool or an int converts, a finite float is truncated
  towards zero, a NaN raises ValueError, an infinity raises OverflowError, \<open>None\<close>, a list
  and a dict raise TypeError, and a str is parsed as a decimal literal (surrounding
  whitespace, one optional sign, digits with single underscores between them) or raises
  ValueError; so does a literal of more than 4300 digits, the interpreter's default
  limit. Strings are ASCII here, and the whitespace of an ASCII str is the tab, the
  line feed, the vertical tab, the form feed, the carriage return and the space.
\<close>

definition is_space :: "char \<Rightarrow> bool" where
  "is_space c = (c \<in> set [CHR 0x09, CHR 0x0A, CHR 0x0B, CHR 0x0C, CHR 0x0D, CHR 0x20])"

definition MAX_STR_DIGITS :: nat where
  "MAX_STR_DIGITS = 4300"

definition strip :: "string \<Rightarrow> string" where
  "strip s = rev (dropWhile is_space (rev (dropWhile is_space s)))"

definition digit_val :: "char \<Rightarrow> nat option" where
  "digit_val c =
     (let n = (of_char c :: nat) in if 48 \<le> n \<and> n \<le> 57 then Some (n - 48) else None)"

fun digits :: "nat \<Rightarrow> string \<Rightarrow> nat option" where
  "digits acc [] = Some acc"
| "digits acc [c] =
     (case digit_val c of None \<Rightarrow> None | Some v \<Rightarrow> Some (10 * acc + v))"
| "digits acc (c # d # ds) =
     (if c = CHR ''_'' then
        (case digit_val d of None \<Rightarrow> None | Some v \<Rightarrow> digits (10 * acc + v) ds)
      else
        (case digit_val c of None \<Rightarrow> None | Some v \<Rightarrow> digits (10 * acc + v) (d # ds)))"

definition unsigned :: "string \<Rightarrow> nat option" where
  "unsigned s =
     (if MAX_STR_DIGITS < length (filter (\<lambda>c. c \<noteq> CHR ''_'') s) then None
      else case s of
             [] \<Rightarrow> None
           | c # cs \<Rightarrow> (case digit_val c of None \<Rightarrow> None | Some v \<Rightarrow> digits v cs))"

definition str_to_int :: "string \<Rightarrow> int option" where
  "str_to_int s =
     (case strip s of
        [] \<Rightarrow> None
      | c # cs \<Rightarrow>
          if c = CHR ''-'' then map_option (\<lambda>n. - int n) (unsigned cs)
          else if c = CHR ''+'' then map_option int (unsigned cs)
          else map_option int (unsigned (c # cs)))"

fun py_int :: "json \<Rightarrow> error + int" where
  "py_int JNull = Inl TypeError"
| "py_int (JBool b) = Inr (if b then 1 else 0)"
| "py_int (JInt i) = Inr i"
| "py_int (JFloat (Finite r)) = Inr (if 0 \<le> r then \<lfloor>r\<rfloor> else \<lceil>r\<rceil>)"
| "py_int (JFloat NaN) = Inl ValueError"
| "py_int (JFloat PosInf) = Inl OverflowError"
| "py_int (JFloat NegInf) = Inl OverflowError"
| "py_int (JStr s) = (case str_to_int s of None \<Rightarrow> Inl ValueError | Some i \<Rightarrow> Inr i)"
| "py_int (JList xs) = Inl TypeError"
| "py_int (JObj kvs) = Inl TypeError"

subsection \<open>HTTP\<close>

text \<open>
  A response as the provider uses it: \<^verbatim>\<open>raise_for_status()\<close> and \<^verbatim>\<open>json()\<close>. The status
  test is the one of the HTTP library's response: it raises for a client or server
  error, a status from 400 to 599, and for no other status. \<open>payload\<close> is \<open>None\<close> when
  the body is not JSON and \<^verbatim>\<open>json()\<close> raises. A request either raises (connection error,
  timeout) or answers with a response.
\<close>

record response =
  payload :: "json option"
  status_code :: int

definition raise_for_status :: "response \<Rightarrow> error option" where
  "raise_for_status r =
     (if 400 \<le> status_code r \<and> status_code r < 600 then Some RequestException
      else None)"

datatype http_outcome = Raises | Responds response

text \<open>The requests the provider sends, in order: the observable effect of a call.\<close>

datatype http_call =
    Get string int
  | Post json "(string \<times> string) list" int

section \<open>Hostname normalisation\<close>

definition startswith :: "string \<Rightarrow> string \<Rightarrow> bool" where
  "startswith s p = (take (length p) s = p)"

definition rstrip :: "char \<Rightarrow> string \<Rightarrow> string" where
  "rstrip c s = rev (dropWhile (\<lambda>x. x = c) (rev s))"

definition normalize_hostname :: "string \<Rightarrow> string" where
  "normalize_hostname hostname =
     (let maybe_scheme = (if startswith hostname ''https://'' then '''' else ''https://'');
          trimmed = (if startswith hostname ''https://''
                     then drop (length ''https://'') hostname else hostname)
      in rstrip CHR ''/'' (maybe_scheme @ trimmed))"

section \<open>The provider\<close>

text \<open>
  What \<^verbatim>\<open>get_oauth_endpoints\<close> of the driver returns (it is not part of this repository,
  so the constructor takes it as an argument): the two methods the provider calls.
\<close>

record oauth_endpoints =
  get_scopes_mapping :: "string list \<Rightarrow> string list"
  get_openid_config_url :: "string \<Rightarrow> string"

text \<open>
  The \<^verbatim>\<open>scopes\<close> argument is an \<^verbatim>\<open>Optional[Iterable[str]]\<close>: \<open>None\<close>, a sized collection
  (list, tuple), whose truth value is its non-emptiness, or an iterator (generator), which
  is always true. \<^verbatim>\<open>tuple(scopes)\<close> collects the items of either.
\<close>

datatype scopes_arg = ScopesNone | ScopesSized "string list" | ScopesIterator "string list"

fun scopes_truthy :: "scopes_arg \<Rightarrow> bool" where
  "scopes_truthy ScopesNone = False"
| "scopes_truthy (ScopesSized xs) = (xs \<noteq> [])"
| "scopes_truthy (ScopesIterator xs) = True"

fun scopes_tuple :: "scopes_arg \<Rightarrow> string list" where
  "scopes_tuple ScopesNone = []"
| "scopes_tuple (ScopesSized xs) = xs"
| "scopes_tuple (ScopesIterator xs) = xs"

definition DEFAULT_SCOPES :: "string list" where
  "DEFAULT_SCOPES = [''sql'']"

text \<open>
  The instance state. The lock is not a field here: every operation below is one
  critical section, run to its end. \<open>self_access_token\<close> is \<open>JNull\<close> for Python's \<open>None\<close>.
\<close>

record provider =
  self_hostname :: string
  self_client_id :: string
  self_client_secret :: string
  self_scopes :: "string list"
  self_refresh_margin :: int
  self_request_timeout :: int
  self_access_token :: json
  self_expires_at :: real
  self_token_endpoint :: json

definition py_not :: "string option \<Rightarrow> bool" where
  "py_not s = (case s of None \<Rightarrow> True | Some x \<Rightarrow> x = [])"

definition dict_get :: "(string \<times> json) list \<Rightarrow> string \<Rightarrow> json \<Rightarrow> json" where
  "dict_get d k dflt = (case map_of d k of None \<Rightarrow> dflt | Some v \<Rightarrow> v)"

fun join :: "string \<Rightarrow> string list \<Rightarrow> string" where
  "join sep [] = []"
| "join sep [x] = x"
| "join sep (x # y # ys) = x @ sep @ join sep (y # ys)"

text \<open>
  \<^verbatim>\<open>_discover_token_endpoint\<close>: \<open>got\<close> is what \<^verbatim>\<open>requests.get\<close> does. The GET, the status
  check and the decoding are inside the \<^verbatim>\<open>try\<close>; \<^verbatim>\<open>config.get\<close> is after it.
\<close>

definition discover_token_endpoint ::
  "provider \<Rightarrow> oauth_endpoints \<Rightarrow> http_outcome \<Rightarrow> (error + json) \<times> http_call list" where
  "discover_token_endpoint self oauth_endpoints got =
     (let openid_config_url = get_openid_config_url oauth_endpoints (self_hostname self);
          sent = [Get openid_config_url (self_request_timeout self)];
          failed = Inl (ServicePrincipalAuthenticationError
                          ''Failed to load Databricks OAuth configuration'')
      in case got of
           Raises \<Rightarrow> (failed, sent)
         | Responds r \<Rightarrow>
             if raise_for_status r \<noteq> None then (failed, sent)
             else (case payload r of
                     None \<Rightarrow> (failed, sent)
                   | Some (JObj config) \<Rightarrow>
                       (let token_endpoint = dict_get config ''token_endpoint'' JNull
                        in if \<not> truthy token_endpoint
                           then (Inl (ServicePrincipalAuthenticationError
                                   ''OAuth configuration did not include a token endpoint''), sent)
                           else (Inr token_endpoint, sent))
                   | Some _ \<Rightarrow> (Inl AttributeError, sent)))"

text \<open>
  \<^verbatim>\<open>__init__\<close>. The result is the instance or the exception, with the requests sent.
  \<open>None\<close> for one of the three strings is Python's \<open>None\<close>.
\<close>

definition init ::
  "(string \<Rightarrow> bool \<Rightarrow> oauth_endpoints option) \<Rightarrow> http_outcome \<Rightarrow>
   string option \<Rightarrow> string option \<Rightarrow> string option \<Rightarrow> scopes_arg \<Rightarrow> int \<Rightarrow> int \<Rightarrow>
   (error + provider) \<times> http_call list" where
  "init get_oauth_endpoints got server_hostname client_id client_secret scopes
        refresh_margin request_timeout =
     (if py_not server_hostname
      then (Inl (ServicePrincipalConfigurationError ''server_hostname is required''), [])
      else if py_not client_id
      then (Inl (ServicePrincipalConfigurationError ''client_id is required''), [])
      else if py_not client_secret
      then (Inl (ServicePrincipalConfigurationError ''client_secret is required''), [])
      else
        (let hostname = normalize_hostname (the server_hostname)
         in case get_oauth_endpoints hostname False of
              None \<Rightarrow>
                (Inl (ServicePrincipalConfigurationError
                        (''Unable to determine OAuth endpoints for host '' @ the server_hostname)),
                 [])
            | Some oauth_endpoints \<Rightarrow>
                (let scope_tuple = (if scopes_truthy scopes then scopes_tuple scopes
                                    else DEFAULT_SCOPES);
                     mapped_scopes = get_scopes_mapping oauth_endpoints scope_tuple;
                     self = \<lparr> self_hostname = hostname,
                              self_client_id = the client_id,
                              self_client_secret = the client_secret,
                              self_scopes = mapped_scopes,
                              self_refresh_margin = refresh_margin,
                              self_request_timeout = request_timeout,
                              self_access_token = JNull,
                              self_expires_at = 0,
                              self_token_endpoint = JNull \<rparr>
                 in case discover_token_endpoint self oauth_endpoints got of
                      (Inl e, sent) \<Rightarrow> (Inl e, sent)
                    | (Inr token_endpoint, sent) \<Rightarrow>
                        (Inr (self\<lparr> self_token_endpoint := token_endpoint \<rparr>), sent))))"

text \<open>\<^verbatim>\<open>_needs_refresh\<close>: \<open>now\<close> is what \<^verbatim>\<open>time.time()\<close> returns, read only with a token.\<close>

definition needs_refresh :: "provider \<Rightarrow> real \<Rightarrow> bool" where
  "needs_refresh self now =
     (if \<not> truthy (self_access_token self) then True
      else now \<ge> self_expires_at self - real_of_int (self_refresh_margin self))"

definition token_payload :: "provider \<Rightarrow> (string \<times> string) list" where
  "token_payload self =
     [(''grant_type'', ''client_credentials''),
      (''client_id'', self_client_id self),
      (''client_secret'', self_client_secret self),
      (''scope'', join '' '' (self_scopes self))]"

text \<open>The last lines of \<^verbatim>\<open>_refresh_token\<close>: the default and the caught exceptions.\<close>

definition parse_expires_in :: "(string \<times> json) list \<Rightarrow> error + int" where
  "parse_expires_in parsed =
     (let expires_in_raw = dict_get parsed ''expires_in'' (JInt 3600)
      in case py_int expires_in_raw of
           Inr expires_in \<Rightarrow> Inr expires_in
         | Inl e \<Rightarrow> if e = TypeError \<or> e = ValueError then Inr 3600 else Inl e)"

text \<open>
  The sum of a float and an int converts the int first. The conversion raises
  \<^verbatim>\<open>OverflowError\<close> when the int would round to \<open>2 ^ 1024\<close> or beyond, that is from
  \<open>2 ^ 1024 - 2 ^ 970\<close> on; below that the int is rounded to 53 significant bits, a tie
  to the even neighbour.
\<close>

fun bit_length :: "nat \<Rightarrow> nat" where
  "bit_length n = (if n = 0 then 0 else Suc (bit_length (n div 2)))"

declare bit_length.simps [simp del]

definition float_of_int :: "int \<Rightarrow> error + real" where
  "float_of_int k =
     (if 2 ^ 1024 - 2 ^ 970 \<le> \<bar>k\<bar> then Inl OverflowError
      else let n = nat \<bar>k\<bar>;
               s = bit_length n - 53;
               q = n div 2 ^ s;
               r = n mod 2 ^ s;
               m = (if 2 * r < 2 ^ s \<or> (2 * r = 2 ^ s \<and> even q) then q else q + 1) * 2 ^ s
           in Inr (real_of_int (sgn k * int m)))"

text \<open>
  \<^verbatim>\<open>_refresh_token\<close>: \<open>got\<close> is what \<^verbatim>\<open>requests.post\<close> does (outside any \<^verbatim>\<open>try\<close>), \<open>now\<close>
  the clock when the expiry is stored. The result is the outcome, the instance after
  the call and the requests sent. The token is stored before the expiry is computed,
  so an overflow of that sum leaves the new token with the old expiry.
\<close>

definition refresh_token ::
  "provider \<Rightarrow> http_outcome \<Rightarrow> real \<Rightarrow> (error + unit) \<times> provider \<times> http_call list" where
  "refresh_token self got now =
     (let sent = [Post (self_token_endpoint self) (token_payload self)
                       (self_request_timeout self)];
          no_token = Inl (ServicePrincipalAuthenticationError
                            ''OAuth response did not include an access token'')
      in case got of
           Raises \<Rightarrow> (Inl RequestException, self, sent)
         | Responds r \<Rightarrow>
             if raise_for_status r \<noteq> None
             then (Inl (ServicePrincipalAuthenticationError
                          ''Failed to retrieve OAuth token for service principal''), self, sent)
             else (case payload r of
                     None \<Rightarrow> (no_token, self, sent)
                   | Some (JObj parsed) \<Rightarrow>
                       (case map_of parsed ''access_token'' of
                          None \<Rightarrow> (no_token, self, sent)
                        | Some access_token \<Rightarrow>
                            (case parse_expires_in parsed of
                               Inl e \<Rightarrow> (Inl e, self, sent)
                             | Inr expires_in \<Rightarrow>
                                 (let self' = self\<lparr> self_access_token := access_token \<rparr>
                                  in case float_of_int
                                            (max expires_in (self_refresh_margin self + 1)) of
                                       Inl e \<Rightarrow> (Inl e, self', sent)
                                     | Inr lifetime \<Rightarrow>
                                         (Inr (),
                                          self'\<lparr> self_expires_at := now + lifetime \<rparr>,
                                          sent))))
                   | Some _ \<Rightarrow> (no_token, self, sent)))"

text \<open>
  \<^verbatim>\<open>_get_token\<close>, the critical section: \<open>now\<close> is the clock of the check, \<open>got\<close> and
  \<open>now'\<close> are used only when a refresh runs. The \<^verbatim>\<open>assert\<close> is a branch.
\<close>

definition get_token ::
  "provider \<Rightarrow> real \<Rightarrow> http_outcome \<Rightarrow> real \<Rightarrow> (error + json) \<times> provider \<times> http_call list" where
  "get_token self now got now' =
     (if needs_refresh self now then
        (case refresh_token self got now' of
           (Inl e, self', sent) \<Rightarrow> (Inl e, self', sent)
         | (Inr u, self', sent) \<Rightarrow>
             if \<not> truthy (self_access_token self') then (Inl AssertionError, self', sent)
             else (Inr (self_access_token self'), self', sent))
      else if \<not> truthy (self_access_token self) then (Inl AssertionError, self, [])
      else (Inr (self_access_token self), self, []))"

text \<open>
  The header factory of \<^verbatim>\<open>__call__\<close>. The f-string inserts a str as it is; \<open>str_of\<close> is
  Python's \<^verbatim>\<open>str()\<close> on the other values.
\<close>

definition format_token :: "(json \<Rightarrow> string) \<Rightarrow> json \<Rightarrow> string" where
  "format_token str_of v = (case v of JStr s \<Rightarrow> s | _ \<Rightarrow> str_of v)"

definition header_factory ::
  "(json \<Rightarrow> string) \<Rightarrow> provider \<Rightarrow> real \<Rightarrow> http_outcome \<Rightarrow> real \<Rightarrow>
   (error + (string \<times> string) list) \<times> provider \<times> http_call list" where
  "header_factory str_of self now got now' =
     (case get_token self now got now' of
        (Inl e, self', sent) \<Rightarrow> (Inl e, self', sent)
      | (Inr access_token, self', sent) \<Rightarrow>
          (Inr [(''Authorization'', ''Bearer '' @ format_token str_of access_token)],
           self', sent))"

text \<open>
  A sequence of calls of the header factory on one instance, as the unit test drives it:
  each call has its two clock readings, the token endpoint answers from a queue (an
  empty queue raises, as the test's exhausted iterator does), and a call takes an answer
  off the queue only when it posts. Each result comes with the requests of its call.
\<close>

fun calls ::
  "(json \<Rightarrow> string) \<Rightarrow> provider \<Rightarrow> http_outcome list \<Rightarrow> (real \<times> real) list \<Rightarrow>
   ((error + (string \<times> string) list) \<times> http_call list) list \<times> provider" where
  "calls str_of self queue [] = ([], self)"
| "calls str_of self queue ((now, now') # later) =
     (case header_factory str_of self now (case queue of [] \<Rightarrow> Raises | got # _ \<Rightarrow> got) now' of
        (result, self', sent) \<Rightarrow>
          (case calls str_of self' (drop (length sent) queue) later of
             (results, self'') \<Rightarrow> ((result, sent) # results, self'')))"

text \<open>
  An endpoint collection for the examples: scopes unchanged, the configuration below
  the host (the shape of the driver's collection for its own OAuth service).
\<close>

definition example_endpoints :: "string \<Rightarrow> bool \<Rightarrow> oauth_endpoints option" where
  "example_endpoints hostname use_azure_auth =
     (if startswith hostname ''https://''
      then Some \<lparr> get_scopes_mapping = (\<lambda>scopes. scopes),
                  get_openid_config_url =
                    (\<lambda>h. h @ ''/oidc/.well-known/oauth-authorization-server'') \<rparr>
      else None)"

text \<open>
  The data of the unit test: a token response with status 200, and the instance that
  the constructor builds for the test's host with the default scopes.
\<close>

definition token_response :: "string \<Rightarrow> json \<Rightarrow> http_outcome" where
  "token_response tok expires_in =
     Responds \<lparr> payload = Some (JObj [(''access_token'', JStr tok), (''expires_in'', expires_in)]),
                status_code = 200 \<rparr>"

definition config_response :: "json \<Rightarrow> http_outcome" where
  "config_response config = Responds \<lparr> payload = Some config, status_code = 200 \<rparr>"

definition example_provider :: "int \<Rightarrow> provider" where
  "example_provider refresh_margin =
     \<lparr> self_hostname = ''https://dbc.cloud.databricks.com'',
       self_client_id = ''client-id'',
       self_client_secret = ''secret'',
       self_scopes = [''sql''],
       self_refresh_margin = refresh_margin,
       self_request_timeout = 10,
       self_access_token = JNull,
       self_expires_at = 0,
       self_token_endpoint = JStr ''https://dbc.cloud.databricks.com/oidc/oauth2/v2.0/token'' \<rparr>"

definition example_post :: http_call where
  "example_post =
     Post (JStr ''https://dbc.cloud.databricks.com/oidc/oauth2/v2.0/token'')
       [(''grant_type'', ''client_credentials''), (''client_id'', ''client-id''),
        (''client_secret'', ''secret''), (''scope'', ''sql'')] 10"

section \<open>Facts about one call\<close>

text \<open>The bit length of a numeral, for evaluation.\<close>

lemma bit_length_0: "bit_length 0 = 0"
  by (simp add: bit_length.simps)

lemma bit_length_Suc_0: "bit_length (Suc 0) = Suc 0"
  by (subst bit_length.simps) (simp add: bit_length_0)

lemma bit_length_numeral: "bit_length (numeral k) = Suc (bit_length (numeral k div 2))"
  by (subst bit_length.simps) simp

lemmas float_of_int_eval =
  float_of_int_def Let_def bit_length_0 bit_length_Suc_0 bit_length_numeral








lemma example_init:
  "init example_endpoints
       (config_response (JObj [(''token_endpoint'',
           JStr ''https://dbc.cloud.databricks.com/oidc/oauth2/v2.0/token'')]))
       (Some ''dbc.cloud.databricks.com'') (Some ''client-id'') (Some ''secret'')
       ScopesNone 0 10 =
     (Inr (example_provider 0),
      [Get ''https://dbc.cloud.databricks.com/oidc/.well-known/oauth-authorization-server'' 10])"
  by (simp add: init_def py_not_def normalize_hostname_def startswith_def rstrip_def
        example_endpoints_def DEFAULT_SCOPES_def discover_token_endpoint_def
        config_response_def raise_for_status_def dict_get_def example_provider_def)

section \<open>The claims\<close>

text \<open>
  Claim C8. \<^verbatim>\<open>_normalize_hostname\<close> at a host that already has the scheme: the scheme is
  removed and none is put back, so the result does not begin with \<open>https://\<close>. The
  same host without the scheme gets it.
\<close>

theorem normalize_hostname_drops_scheme:
  "normalize_hostname ''https://dbc.cloud.databricks.com'' = ''dbc.cloud.databricks.com'' \<and>
   normalize_hostname ''dbc.cloud.databricks.com'' = ''https://dbc.cloud.databricks.com''"
  by (simp add: normalize_hostname_def startswith_def rstrip_def)



text \<open>
  Claim C2. A refresh with margin \<open>2 ^ 53\<close>, a lifetime of 5 and the clock at 1700000000:
  the int \<open>2 ^ 53 + 1\<close> that is added to the clock is converted to the float \<open>2 ^ 53\<close>,
  the stored expiry is 9007200954740992, and at the same clock the expiry less the
  margin is the clock itself, so the instance needs a refresh straight after the
  successful one. With the margin 60 the expiry is 61 after the clock and no refresh is
  needed.
\<close>

theorem refresh_window_degenerate_at_large_margin:
  "refresh_token (example_provider (2 ^ 53)) (token_response ''t1'' (JInt 5)) 1700000000 =
     (Inr (),
      (example_provider (2 ^ 53))\<lparr> self_access_token := JStr ''t1'',
                                    self_expires_at := 9007200954740992 \<rparr>,
      [example_post]) \<and>
   needs_refresh ((example_provider (2 ^ 53))\<lparr> self_access_token := JStr ''t1'',
                                                self_expires_at := 9007200954740992 \<rparr>)
       1700000000 = True \<and>
   refresh_token (example_provider 60) (token_response ''t1'' (JInt 5)) 1700000000 =
     (Inr (),
      (example_provider 60)\<lparr> self_access_token := JStr ''t1'', self_expires_at := 1700000061 \<rparr>,
      [example_post]) \<and>
   needs_refresh ((example_provider 60)\<lparr> self_access_token := JStr ''t1'',
                                          self_expires_at := 1700000061 \<rparr>)
       1700000000 = False"
  by (simp add: refresh_token_def token_response_def raise_for_status_def
        parse_expires_in_def dict_get_def float_of_int_eval
        needs_refresh_def example_provider_def example_post_def token_payload_def)

text \<open>
  Claim C3. A refresh whose response carries a token and a lifetime beyond the range of
  a float (here \<open>10 ^ 400\<close>, on an instance that holds the token \<open>t1\<close> with expiry 50):
  the new token is stored, then the sum for the expiry raises \<^verbatim>\<open>OverflowError\<close>, so the
  refresh fails with the new token beside the old expiry, neither a full update nor
  the instance as it was, and the error is not the authentication error. An answer with
  status 304 that carries a token is not refused by \<^verbatim>\<open>raise_for_status\<close> and is stored.
  A status of 500, and a body without the token, do give the authentication error and
  leave the instance as it was.
\<close>

theorem refresh_token_overflow_partial_update:
  "refresh_token ((example_provider 60)\<lparr> self_access_token := JStr ''t1'', self_expires_at := 50 \<rparr>)
       (token_response ''t2'' (JInt (10 ^ 400))) 100 =
     (Inl OverflowError,
      (example_provider 60)\<lparr> self_access_token := JStr ''t2'', self_expires_at := 50 \<rparr>,
      [example_post]) \<and>
   refresh_token ((example_provider 60)\<lparr> self_access_token := JStr ''t1'', self_expires_at := 50 \<rparr>)
       (Responds \<lparr> payload = Some (JObj [(''access_token'', JStr ''t2''), (''expires_in'', JInt 5)]),
                   status_code = 304 \<rparr>) 100 =
     (Inr (),
      (example_provider 60)\<lparr> self_access_token := JStr ''t2'', self_expires_at := 161 \<rparr>,
      [example_post]) \<and>
   refresh_token ((example_provider 60)\<lparr> self_access_token := JStr ''t1'', self_expires_at := 50 \<rparr>)
       (Responds \<lparr> payload = Some (JObj [(''access_token'', JStr ''t2''), (''expires_in'', JInt 5)]),
                   status_code = 500 \<rparr>) 100 =
     (Inl (ServicePrincipalAuthenticationError
             ''Failed to retrieve OAuth token for service principal''),
      (example_provider 60)\<lparr> self_access_token := JStr ''t1'', self_expires_at := 50 \<rparr>,
      [example_post]) \<and>
   refresh_token ((example_provider 60)\<lparr> self_access_token := JStr ''t1'', self_expires_at := 50 \<rparr>)
       (Responds \<lparr> payload = Some (JObj [(''expires_in'', JInt 5)]), status_code = 200 \<rparr>) 100 =
     (Inl (ServicePrincipalAuthenticationError
             ''OAuth response did not include an access token''),
      (example_provider 60)\<lparr> self_access_token := JStr ''t1'', self_expires_at := 50 \<rparr>,
      [example_post])"
  by (simp add: refresh_token_def token_response_def raise_for_status_def
        parse_expires_in_def dict_get_def float_of_int_eval example_provider_def
        example_post_def token_payload_def)

text \<open>
  Claim C4. On an instance with margin 0 and no cached token, with the token endpoint
  answering \<open>t1\<close> and then \<open>t2\<close>, both with \<open>expires_in = 5\<close>: the call at clock 0
  returns \<open>Bearer t1\<close> after one POST, the call at clock 2 returns \<open>Bearer t1\<close> with
  no request, and the call at clock 6 returns \<open>Bearer t2\<close> after a second POST.
\<close>

theorem header_factory_test_scenario:
  assumes "self_refresh_margin self = 0" and "\<not> truthy (self_access_token self)"
  shows "calls str_of self [token_response ''t1'' (JInt 5), token_response ''t2'' (JInt 5)]
           [(0, 0), (2, 2), (6, 6)] =
         ([(Inr [(''Authorization'', ''Bearer t1'')],
            [Post (self_token_endpoint self) (token_payload self) (self_request_timeout self)]),
           (Inr [(''Authorization'', ''Bearer t1'')], []),
           (Inr [(''Authorization'', ''Bearer t2'')],
            [Post (self_token_endpoint self) (token_payload self) (self_request_timeout self)])],
          self\<lparr> self_access_token := JStr ''t2'', self_expires_at := 11 \<rparr>)"
  using assms
  by (simp add: header_factory_def get_token_def needs_refresh_def refresh_token_def
        token_response_def raise_for_status_def parse_expires_in_def float_of_int_eval dict_get_def
        format_token_def token_payload_def)

theorem header_factory_test_scenario_witness:
  "init example_endpoints
       (config_response (JObj [(''token_endpoint'',
           JStr ''https://dbc.cloud.databricks.com/oidc/oauth2/v2.0/token'')]))
       (Some ''dbc.cloud.databricks.com'') (Some ''client-id'') (Some ''secret'')
       ScopesNone 0 10 =
     (Inr (example_provider 0),
      [Get ''https://dbc.cloud.databricks.com/oidc/.well-known/oauth-authorization-server'' 10]) \<and>
   calls (\<lambda>v. []) (example_provider 0)
       [token_response ''t1'' (JInt 5), token_response ''t2'' (JInt 5)]
       [(0, 0), (2, 2), (6, 6)] =
     ([(Inr [(''Authorization'', ''Bearer t1'')], [example_post]),
       (Inr [(''Authorization'', ''Bearer t1'')], []),
       (Inr [(''Authorization'', ''Bearer t2'')], [example_post])],
      (example_provider 0)\<lparr> self_access_token := JStr ''t2'', self_expires_at := 11 \<rparr>)"
proof -
  have m: "self_refresh_margin (example_provider 0) = 0"
    and t: "\<not> truthy (self_access_token (example_provider 0))"
    by (simp_all add: example_provider_def)
  show ?thesis
    using header_factory_test_scenario [OF m t, of "\<lambda>v. []"]
    by (simp add: example_init)
       (simp add: example_provider_def example_post_def token_payload_def)
qed

text \<open>
  Claim C5. A token response whose \<open>expires_in\<close> is an infinite float (the JSON number
  \<open>1e999\<close> decodes to one): \<^verbatim>\<open>int()\<close> raises \<^verbatim>\<open>OverflowError\<close>, which the \<^verbatim>\<open>except\<close> clause
  for TypeError and ValueError does not catch, so the refresh fails, nothing is stored
  and no lifetime of 3600 is used. A NaN, a str that is no decimal literal and an absent
  field take the default: the expiry is 3600 after the clock.
\<close>

theorem expires_in_infinity_not_defaulted:
  "parse_expires_in [(''access_token'', JStr ''t1''), (''expires_in'', JFloat PosInf)] =
     Inl OverflowError \<and>
   refresh_token (example_provider 60) (token_response ''t1'' (JFloat PosInf)) 100 =
     (Inl OverflowError, example_provider 60, [example_post]) \<and>
   refresh_token (example_provider 60) (token_response ''t1'' (JFloat NaN)) 100 =
     (Inr (), (example_provider 60)\<lparr> self_access_token := JStr ''t1'', self_expires_at := 3700 \<rparr>,
      [example_post]) \<and>
   refresh_token (example_provider 60) (token_response ''t1'' (JStr ''soon'')) 100 =
     (Inr (), (example_provider 60)\<lparr> self_access_token := JStr ''t1'', self_expires_at := 3700 \<rparr>,
      [example_post]) \<and>
   refresh_token (example_provider 60)
       (Responds \<lparr> payload = Some (JObj [(''access_token'', JStr ''t1'')]), status_code = 200 \<rparr>) 100 =
     (Inr (), (example_provider 60)\<lparr> self_access_token := JStr ''t1'', self_expires_at := 3700 \<rparr>,
      [example_post])"
  by (simp add: refresh_token_def token_response_def raise_for_status_def
        parse_expires_in_def dict_get_def float_of_int_eval example_provider_def
        example_post_def token_payload_def str_to_int_def strip_def is_space_def
        unsigned_def digit_val_def MAX_STR_DIGITS_def)

text \<open>
  Claim C6. When the hostname, the client id or the client secret is \<open>None\<close> or empty,
  the constructor raises the configuration error and sends no request, whatever the
  endpoint helper and the network would do. When the three are present and the endpoint
  helper returns nothing for the normalised host, it raises the configuration error
  naming the host, again without a request.
\<close>

theorem init_requires_configuration:
  "(py_not server_hostname \<or> py_not client_id \<or> py_not client_secret \<longrightarrow>
      (\<exists>msg. init get_oauth_endpoints got server_hostname client_id client_secret scopes
                refresh_margin request_timeout =
              (Inl (ServicePrincipalConfigurationError msg), [])))
   \<and>
   (h \<noteq> [] \<and> c \<noteq> [] \<and> s \<noteq> [] \<and> get_oauth_endpoints (normalize_hostname h) False = None \<longrightarrow>
      init get_oauth_endpoints got (Some h) (Some c) (Some s) scopes
           refresh_margin request_timeout =
        (Inl (ServicePrincipalConfigurationError
                (''Unable to determine OAuth endpoints for host '' @ h)), []))"
  by (simp add: init_def py_not_def)

theorem init_requires_configuration_witness:
  "init example_endpoints Raises (Some '''') (Some ''client'') (Some ''secret'') ScopesNone 60 10 =
     (Inl (ServicePrincipalConfigurationError ''server_hostname is required''), []) \<and>
   init example_endpoints Raises (Some ''dbc.cloud.databricks.com'') None (Some ''secret'')
       ScopesNone 60 10 =
     (Inl (ServicePrincipalConfigurationError ''client_id is required''), []) \<and>
   init (\<lambda>h a. None) Raises (Some ''dbc.cloud.databricks.com'') (Some ''client'') (Some ''secret'')
       ScopesNone 60 10 =
     (Inl (ServicePrincipalConfigurationError
        ''Unable to determine OAuth endpoints for host dbc.cloud.databricks.com''), [])"
proof -
  have h1: "py_not (Some '''') \<or> py_not (Some ''client'') \<or> py_not (Some ''secret'')"
    by (simp add: py_not_def)
  have h2: "py_not (Some ''dbc.cloud.databricks.com'') \<or> py_not None \<or> py_not (Some ''secret'')"
    by (simp add: py_not_def)
  have h3: "''dbc.cloud.databricks.com'' \<noteq> [] \<and> ''client'' \<noteq> [] \<and> ''secret'' \<noteq> [] \<and>
      (\<lambda>h a. None :: oauth_endpoints option) (normalize_hostname ''dbc.cloud.databricks.com'') False = None"
    by simp
  from init_requires_configuration [where server_hostname = "Some ''''" and client_id = "Some ''client''"
      and client_secret = "Some ''secret''" and get_oauth_endpoints = example_endpoints
      and got = Raises and scopes = ScopesNone and refresh_margin = 60 and request_timeout = 10,
      THEN conjunct1, rule_format, OF h1]
  have a: "init example_endpoints Raises (Some '''') (Some ''client'') (Some ''secret'') ScopesNone 60 10 =
     (Inl (ServicePrincipalConfigurationError ''server_hostname is required''), [])"
    by (auto simp: init_def py_not_def)
  from init_requires_configuration [where server_hostname = "Some ''dbc.cloud.databricks.com''"
      and client_id = None
      and client_secret = "Some ''secret''" and get_oauth_endpoints = example_endpoints
      and got = Raises and scopes = ScopesNone and refresh_margin = 60 and request_timeout = 10,
      THEN conjunct1, rule_format, OF h2]
  have b: "init example_endpoints Raises (Some ''dbc.cloud.databricks.com'') None (Some ''secret'')
       ScopesNone 60 10 =
     (Inl (ServicePrincipalConfigurationError ''client_id is required''), [])"
    by (auto simp: init_def py_not_def)
  from init_requires_configuration [where h = "''dbc.cloud.databricks.com''" and c = "''client''"
      and s = "''secret''" and get_oauth_endpoints = "\<lambda>h a. None"
      and got = Raises and scopes = ScopesNone and refresh_margin = 60 and request_timeout = 10,
      THEN conjunct2, rule_format, OF h3]
  have c: "init (\<lambda>h a. None) Raises (Some ''dbc.cloud.databricks.com'') (Some ''client'') (Some ''secret'')
       ScopesNone 60 10 =
     (Inl (ServicePrincipalConfigurationError
        ''Unable to determine OAuth endpoints for host dbc.cloud.databricks.com''), [])"
    by simp
  from a b c show ?thesis by simp
qed

text \<open>
  Claim C7. The constructor at a configuration document that is JSON but not an object
  (here the empty list, with status 200): \<^verbatim>\<open>config.get\<close> stands after the \<^verbatim>\<open>try\<close> block,
  so the AttributeError leaves the constructor as it is, not as the authentication
  error. \<^verbatim>\<open>_refresh_token\<close> reads its key inside the \<^verbatim>\<open>try\<close> and turns the same body into
  the authentication error.
\<close>

theorem discovery_non_object_escapes:
  "init example_endpoints (config_response (JList []))
       (Some ''dbc.cloud.databricks.com'') (Some ''client-id'') (Some ''secret'')
       ScopesNone 60 10 =
     (Inl AttributeError,
      [Get ''https://dbc.cloud.databricks.com/oidc/.well-known/oauth-authorization-server'' 10]) \<and>
   fst (refresh_token (example_provider 60) (config_response (JList [])) 0) =
     Inl (ServicePrincipalAuthenticationError ''OAuth response did not include an access token'')"
  by (simp add: init_def py_not_def normalize_hostname_def startswith_def rstrip_def
        example_endpoints_def DEFAULT_SCOPES_def discover_token_endpoint_def
        config_response_def raise_for_status_def refresh_token_def)

text \<open>
  Claim C10. The constructor at an empty iterator for \<open>scopes\<close>: an iterator is a true
  value, so the default is not taken, the mapped scopes are those of the empty list and
  the \<open>scope\<close> field of the token request is the empty string. An empty list does fall
  back to \<open>sql\<close>.
\<close>

theorem empty_iterator_scopes_not_defaulted:
  "map_sum id self_scopes
     (fst (init example_endpoints
        (config_response (JObj [(''token_endpoint'', JStr ''https://dbc.cloud.databricks.com/oidc/oauth2/v2.0/token'')]))
        (Some ''dbc.cloud.databricks.com'') (Some ''client-id'') (Some ''secret'')
        (ScopesIterator []) 60 10)) = Inr [] \<and>
   map_sum id token_payload
     (fst (init example_endpoints
        (config_response (JObj [(''token_endpoint'', JStr ''https://dbc.cloud.databricks.com/oidc/oauth2/v2.0/token'')]))
        (Some ''dbc.cloud.databricks.com'') (Some ''client-id'') (Some ''secret'')
        (ScopesIterator []) 60 10)) =
     Inr [(''grant_type'', ''client_credentials''), (''client_id'', ''client-id''),
          (''client_secret'', ''secret''), (''scope'', '''')] \<and>
   map_sum id self_scopes
     (fst (init example_endpoints
        (config_response (JObj [(''token_endpoint'', JStr ''https://dbc.cloud.databricks.com/oidc/oauth2/v2.0/token'')]))
        (Some ''dbc.cloud.databricks.com'') (Some ''client-id'') (Some ''secret'')
        (ScopesSized []) 60 10)) = Inr [''sql'']"
  by (simp add: init_def py_not_def normalize_hostname_def startswith_def rstrip_def
        example_endpoints_def DEFAULT_SCOPES_def discover_token_endpoint_def
        config_response_def raise_for_status_def dict_get_def token_payload_def)

end
